theory Spec2Isabelle
  imports Main
begin

section \<open>Conventions of the model\<close>

text \<open>
  The application keeps every collection as a JSON list in the browser's local storage
  and mutates it from event handlers. The model below follows the TypeScript sources:
  \<^item> identifiers are strings; \<open>generateId()\<close> (time stamp plus random suffix) is the
    \<open>n\<close>-th value of a supply \<open>gen :: nat \<Rightarrow> ident\<close>, where \<open>n\<close> counts the identifiers
    handed out so far (\<open>idSeq\<close> of the store). Nothing is assumed about \<open>gen\<close>; a
    theorem that needs fresh identifiers says so in its hypotheses;
  \<^item> JavaScript numbers that hold quantities, thresholds and prices are \<open>int\<close>;
  \<^item> the instants written by \<open>new Date()\<close> (\<open>createdAt\<close>, \<open>updatedAt\<close>,
    \<open>lastUpdated\<close>, \<open>transactionDate\<close>) are not part of the records: no write of the
    modelled operations depends on them;
  \<^item> a handler's outcome (the toast it shows, the error it catches) is returned as a
    value of type \<open>error + unit\<close> next to the new store;
  \<^item> a write to local storage is taken to succeed (no quota error);
  \<^item> \<open>window.dispatchEvent\<close> only hands an event to the listeners; what the listener of
    \<open>inventory-updated\<close> does is \<open>handleInventoryUpdate\<close> below, as a function of the
    provider's state. When React renders and runs effects again is not modelled;
  \<^item> string literals of the sources that are not ASCII are given by their UTF-8 bytes.
\<close>

type_synonym ident = string

section \<open>Users and the permission evaluator\<close>

datatype permission = View | Edit | Delete | Manage_users | Manage_settings

datatype app_module = Dashboard | Inventory | Stock_in | Stock_out | Reports | Users

datatype role = Admin | Manager | Staff

record user =
  user_id :: ident
  username :: string
  password :: string
  user_name :: string
  email :: string
  role :: role
  permissions :: "app_module \<rightharpoonup> permission list"
  isActive :: bool

text \<open>\<open>usePermissions(currentUser).hasPermission\<close>; \<open>None\<close> is the \<open>null\<close> user.\<close>

definition hasPermission :: "user option \<Rightarrow> app_module \<Rightarrow> permission \<Rightarrow> bool" where
  "hasPermission currentUser m p =
     (case currentUser of
        None \<Rightarrow> False
      | Some u \<Rightarrow>
          if \<not> isActive u then False
          else if role u = Admin then True
          else (case permissions u m of None \<Rightarrow> False | Some ps \<Rightarrow> p \<in> set ps))"

section \<open>Records of the store\<close>

record material =
  mat_id :: ident
  mat_name :: string
  mat_specification :: string
  mat_categoryId :: ident
  mat_unit :: string
  mat_supplierId :: "ident option"
  referencePrice :: int
  mat_description :: "string option"

record inventoryItem =
  inv_id :: ident
  inv_materialId :: ident
  quantity :: int
  alertThreshold :: int

datatype transaction_type = TStock_in | TStock_out | TAdjustment

record inventoryTransaction =
  tx_id :: ident
  tx_materialId :: ident
  tx_type :: transaction_type
  tx_quantity :: int
  referenceId :: "ident option"
  tx_notes :: string
  createdBy :: string

datatype order_status = Draft | Completed | Cancelled

record stockInOrder =
  so_id :: ident
  so_orderNumber :: string
  so_supplierId :: ident
  so_projectId :: "ident option"
  so_orderDate :: string
  so_status :: order_status
  so_notes :: string

record stockInItem =
  si_id :: ident
  si_orderId :: ident
  si_materialId :: ident
  si_quantity :: int
  si_unitPrice :: int
  si_totalPrice :: int
  si_notes :: "string option"

text \<open>The collections of local storage that the modelled handlers read or write, in
  insertion order, and the number of identifiers generated so far.\<close>

record store =
  materials :: "material list"
  inventory :: "inventoryItem list"
  inventoryTransactions :: "inventoryTransaction list"
  stockInOrders :: "stockInOrder list"
  stockInItems :: "stockInItem list"
  idSeq :: nat

section \<open>The generic record store (\<open>LocalStorageService\<close>)\<close>

definition generateId :: "(nat \<Rightarrow> ident) \<Rightarrow> store \<Rightarrow> ident \<times> store" where
  "generateId gen s = (gen (idSeq s), s\<lparr>idSeq := Suc (idSeq s)\<rparr>)"

text \<open>\<open>items.findIndex(p)\<close>; \<open>None\<close> is \<open>-1\<close>.\<close>

fun findIndex :: "('a \<Rightarrow> bool) \<Rightarrow> 'a list \<Rightarrow> nat option" where
  "findIndex p [] = None"
| "findIndex p (x # xs) =
     (if p x then Some 0 else (case findIndex p xs of None \<Rightarrow> None | Some i \<Rightarrow> Some (Suc i)))"

text \<open>\<open>inventoryService\<close>: \<open>getById\<close>, \<open>create\<close> and \<open>update\<close>. The partial record
  given to \<open>update\<close> is the function that overwrites exactly its fields.\<close>

definition inventoryService_getById :: "ident \<Rightarrow> store \<Rightarrow> inventoryItem option" where
  "inventoryService_getById i s = find (\<lambda>item. inv_id item = i) (inventory s)"

definition inventoryService_create ::
  "(nat \<Rightarrow> ident) \<Rightarrow> ident \<Rightarrow> int \<Rightarrow> int \<Rightarrow> store \<Rightarrow> inventoryItem \<times> store" where
  "inventoryService_create gen materialId qty threshold s =
     (let (newId, s1) = generateId gen s;
          newItem = \<lparr>inv_id = newId, inv_materialId = materialId, quantity = qty,
                     alertThreshold = threshold\<rparr>
      in (newItem, s1\<lparr>inventory := inventory s1 @ [newItem]\<rparr>))"

definition inventoryService_update ::
  "ident \<Rightarrow> (inventoryItem \<Rightarrow> inventoryItem) \<Rightarrow> store \<Rightarrow> inventoryItem option \<times> store" where
  "inventoryService_update i upd s =
     (case findIndex (\<lambda>item. inv_id item = i) (inventory s) of
        None \<Rightarrow> (None, s)
      | Some index \<Rightarrow>
          (let updatedItem = upd (inventory s ! index)
           in (Some updatedItem, s\<lparr>inventory := (inventory s)[index := updatedItem]\<rparr>)))"

text \<open>\<open>inventoryTransactionService.create\<close>: the log is only ever appended to.\<close>

definition inventoryTransactionService_create ::
  "(nat \<Rightarrow> ident) \<Rightarrow> ident \<Rightarrow> transaction_type \<Rightarrow> int \<Rightarrow> ident option \<Rightarrow> string \<Rightarrow> string
     \<Rightarrow> store \<Rightarrow> inventoryTransaction \<times> store" where
  "inventoryTransactionService_create gen materialId ty qty ref nts actor s =
     (let (newId, s1) = generateId gen s;
          newItem = \<lparr>tx_id = newId, tx_materialId = materialId, tx_type = ty,
                     tx_quantity = qty, referenceId = ref, tx_notes = nts, createdBy = actor\<rparr>
      in (newItem, s1\<lparr>inventoryTransactions := inventoryTransactions s1 @ [newItem]\<rparr>))"

section \<open>The inventory provider: lazy provisioning and manual adjustment\<close>

text \<open>\<open>loadAllData\<close> of \<open>InventoryProvider\<close>. The inventory list is read once, before the
  loop over the materials; each material without an item in that snapshot gets a new item
  with quantity 0 and threshold 10. The lists the function then hands to the views are
  the collections of the resulting store.\<close>

definition loadAllData :: "(nat \<Rightarrow> ident) \<Rightarrow> store \<Rightarrow> store" where
  "loadAllData gen s =
     (let latestMaterials = materials s;
          inventoryItems = inventory s
      in foldl (\<lambda>st m.
                  if list_ex (\<lambda>item. inv_materialId item = mat_id m) inventoryItems then st
                  else snd (inventoryService_create gen (mat_id m) 0 10 st))
               s latestMaterials)"

text \<open>What a handler reports. For \<open>adjustInventory\<close>: the two early returns with an
  error toast (no permission, zero quantity) and the two errors thrown inside its
  \<open>try\<close> block (unknown item, negative result), which the \<open>catch\<close> turns into a
  toast. For the stock-in page: a form that does not validate, a header that could not
  be updated, the three errors thrown for a line item inside the loop, a delete that
  removed nothing, and a confirmation dialog that was dismissed.\<close>

datatype error =
    PermissionDenied
  | ZeroQuantity
  | ItemNotFound
  | InsufficientStock
  | ValidationFailed
  | UpdateOrderFailed
  | MaterialMissing
  | QuantityNotPositive
  | PriceNotPositive
  | DeleteFailed
  | NotConfirmed

definition note_reason :: string where
  "note_reason = [CHR 0xE8, CHR 0xB0, CHR 0x83, CHR 0xE6, CHR 0x95, CHR 0xB4, CHR 0xE5, CHR 0x8E,
                  CHR 0x9F, CHR 0xE5, CHR 0x9B, CHR 0xA0, CHR '':'', CHR '' '']"

definition note_remark :: string where
  "note_remark = [CHR 0xE3, CHR 0x80, CHR 0x82, CHR 0xE5, CHR 0xA4, CHR 0x87, CHR 0xE6, CHR 0xB3,
                  CHR 0xA8, CHR '':'', CHR '' '']"

definition note_none :: string where
  "note_none = [CHR 0xE6, CHR 0x97, CHR 0xA0]"

text \<open>The template string of the adjustment note; \<open>notes || ...\<close> replaces a missing or
  empty note.\<close>

definition adjustment_notes :: "string \<Rightarrow> string option \<Rightarrow> string" where
  "adjustment_notes reason notes =
     note_reason @ reason @ note_remark @
       (case notes of None \<Rightarrow> note_none | Some n \<Rightarrow> if n = [] then note_none else n)"

definition adjustInventory ::
  "(nat \<Rightarrow> ident) \<Rightarrow> user option \<Rightarrow> ident \<Rightarrow> int \<Rightarrow> string \<Rightarrow> string option \<Rightarrow> store
     \<Rightarrow> (error + unit) \<times> store" where
  "adjustInventory gen currentUser itemId qty reason notes s =
     (if \<not> hasPermission currentUser Inventory Edit then (Inl PermissionDenied, s)
      else if qty = 0 then (Inl ZeroQuantity, s)
      else
        (case inventoryService_getById itemId s of
           None \<Rightarrow> (Inl ItemNotFound, s)
         | Some inventoryItem \<Rightarrow>
             (let newQuantity = quantity inventoryItem + qty
              in if newQuantity < 0 then (Inl InsufficientStock, s)
                 else
                   (let s1 = snd (inventoryService_update itemId
                                    (\<lambda>r. r\<lparr>quantity := newQuantity\<rparr>) s);
                        s2 = snd (inventoryTransactionService_create gen
                                    (inv_materialId inventoryItem) TAdjustment qty None
                                    (adjustment_notes reason notes) ''admin'' s1)
                    in (Inr (), loadAllData gen s2)))))"

section \<open>The stock-in page\<close>

definition note_stock_in :: string where
  "note_stock_in = [CHR 0xE5, CHR 0x85, CHR 0xA5, CHR 0xE5, CHR 0xBA, CHR 0x93]"

text \<open>\<open>updateInventory\<close> of the stock-in page. \<open>currentOrder\<close> is the component state
  the closure reads: the order being edited, or \<open>null\<close>. The reference of the
  transaction is \<open>currentOrder?.id || ''\<close>.\<close>

definition updateInventory ::
  "(nat \<Rightarrow> ident) \<Rightarrow> stockInOrder option \<Rightarrow> ident \<Rightarrow> int \<Rightarrow> store \<Rightarrow> store" where
  "updateInventory gen currentOrder materialId qty s =
     (let inventoryItem = find (\<lambda>item. inv_materialId item = materialId) (inventory s);
          s1 = (case inventoryItem of
                  Some it \<Rightarrow>
                    snd (inventoryService_update (inv_id it)
                           (\<lambda>r. r\<lparr>quantity := quantity it + qty\<rparr>) s)
                | None \<Rightarrow> snd (inventoryService_create gen materialId qty 10 s))
      in snd (inventoryTransactionService_create gen materialId TStock_in qty
                (Some (case currentOrder of None \<Rightarrow> [] | Some ord \<Rightarrow> so_id ord))
                note_stock_in ''admin'' s1))"

record stockInItemForm =
  f_id :: "ident option"
  f_materialId :: ident
  f_quantity :: int
  f_unitPrice :: int
  f_totalPrice :: int
  f_notes :: "string option"

record formData =
  fd_orderNumber :: string
  fd_supplierId :: ident
  fd_projectId :: ident
  fd_orderDate :: string
  fd_notes :: string
  fd_status :: order_status
  fd_items :: "stockInItemForm list"

text \<open>The state of the page that \<open>saveStockInOrder\<close> reads. \<open>generatedOrderNumber\<close> is
  what \<open>generateOrderNumber()\<close> returns at that moment (it depends on the clock and on the
  orders loaded into the page).\<close>

record stockInPage =
  isEditing :: bool
  currentOrder :: "stockInOrder option"
  formData :: formData
  generatedOrderNumber :: string

text \<open>\<open>validateForm\<close>: true when no error key was set.\<close>

definition validateForm :: "formData \<Rightarrow> bool" where
  "validateForm fd \<longleftrightarrow>
     fd_supplierId fd \<noteq> [] \<and> fd_orderDate fd \<noteq> [] \<and> fd_items fd \<noteq> [] \<and>
     list_all (\<lambda>item. f_materialId item \<noteq> [] \<and> \<not> f_quantity item \<le> 0 \<and> \<not> f_unitPrice item \<le> 0)
       (fd_items fd)"

text \<open>\<open>stockInService\<close> and \<open>stockInItemService\<close>.\<close>

definition stockInService_create ::
  "(nat \<Rightarrow> ident) \<Rightarrow> string \<Rightarrow> ident \<Rightarrow> ident option \<Rightarrow> string \<Rightarrow> order_status \<Rightarrow> string
     \<Rightarrow> store \<Rightarrow> stockInOrder \<times> store" where
  "stockInService_create gen orderNumber supplierId projectId orderDate st nts s =
     (let (newId, s1) = generateId gen s;
          newItem = \<lparr>so_id = newId, so_orderNumber = orderNumber, so_supplierId = supplierId,
                     so_projectId = projectId, so_orderDate = orderDate, so_status = st,
                     so_notes = nts\<rparr>
      in (newItem, s1\<lparr>stockInOrders := stockInOrders s1 @ [newItem]\<rparr>))"

definition stockInService_update ::
  "ident \<Rightarrow> (stockInOrder \<Rightarrow> stockInOrder) \<Rightarrow> store \<Rightarrow> stockInOrder option \<times> store" where
  "stockInService_update i upd s =
     (case findIndex (\<lambda>item. so_id item = i) (stockInOrders s) of
        None \<Rightarrow> (None, s)
      | Some index \<Rightarrow>
          (let updatedItem = upd (stockInOrders s ! index)
           in (Some updatedItem, s\<lparr>stockInOrders := (stockInOrders s)[index := updatedItem]\<rparr>)))"

definition stockInService_delete :: "ident \<Rightarrow> store \<Rightarrow> bool \<times> store" where
  "stockInService_delete i s =
     (let items = stockInOrders s;
          newItems = filter (\<lambda>item. so_id item \<noteq> i) items
      in if length items = length newItems then (False, s)
         else (True, s\<lparr>stockInOrders := newItems\<rparr>))"

definition stockInItemService_create ::
  "(nat \<Rightarrow> ident) \<Rightarrow> ident \<Rightarrow> ident \<Rightarrow> int \<Rightarrow> int \<Rightarrow> int \<Rightarrow> string option
     \<Rightarrow> store \<Rightarrow> stockInItem \<times> store" where
  "stockInItemService_create gen orderId materialId qty unitPrice totalPrice nts s =
     (let (newId, s1) = generateId gen s;
          newItem = \<lparr>si_id = newId, si_orderId = orderId, si_materialId = materialId,
                     si_quantity = qty, si_unitPrice = unitPrice, si_totalPrice = totalPrice,
                     si_notes = nts\<rparr>
      in (newItem, s1\<lparr>stockInItems := stockInItems s1 @ [newItem]\<rparr>))"

definition stockInItemService_delete :: "ident \<Rightarrow> store \<Rightarrow> bool \<times> store" where
  "stockInItemService_delete i s =
     (let items = stockInItems s;
          newItems = filter (\<lambda>item. si_id item \<noteq> i) items
      in if length items = length newItems then (False, s)
         else (True, s\<lparr>stockInItems := newItems\<rparr>))"

text \<open>The loop of \<open>saveStockInOrder\<close> over the line items of the form. An error thrown
  for an item leaves the loop; what earlier items wrote stays written.\<close>

fun saveItems ::
  "(nat \<Rightarrow> ident) \<Rightarrow> stockInOrder option \<Rightarrow> order_status \<Rightarrow> ident \<Rightarrow> stockInItemForm list
     \<Rightarrow> store \<Rightarrow> (error + unit) \<times> store" where
  "saveItems gen cur st orderId [] s = (Inr (), s)"
| "saveItems gen cur st orderId (item # rest) s =
     (if f_materialId item = [] then (Inl MaterialMissing, s)
      else if f_quantity item \<le> 0 then (Inl QuantityNotPositive, s)
      else if f_unitPrice item \<le> 0 then (Inl PriceNotPositive, s)
      else
        (let s1 = snd (stockInItemService_create gen orderId (f_materialId item) (f_quantity item)
                         (f_unitPrice item) (f_totalPrice item) (f_notes item) s);
             s2 = (if st = Completed
                   then updateInventory gen cur (f_materialId item) (f_quantity item) s1
                   else s1)
         in saveItems gen cur st orderId rest s2))"

text \<open>\<open>saveStockInOrder\<close>. The three checks at the head of its \<open>try\<close> block repeat
  \<open>validateForm\<close>. The order date of the form is stored as it is (the conversion to an ISO
  string is not modelled). In edit mode (\<open>isEditing && currentOrder?.id\<close>) the header is
  updated and the old line items are deleted one by one before the items of the form
  are written. What follows the loop (reloading the lists of the page, closing the
  dialog, the toast and the \<open>inventory-updated\<close> event) writes nothing new to the store.\<close>

definition saveStockInOrder ::
  "(nat \<Rightarrow> ident) \<Rightarrow> stockInPage \<Rightarrow> store \<Rightarrow> (error + unit) \<times> store" where
  "saveStockInOrder gen page s =
     (let fd = formData page in
      if \<not> validateForm fd then (Inl ValidationFailed, s)
      else if fd_supplierId fd = [] \<or> fd_orderDate fd = [] \<or> fd_items fd = []
      then (Inl ValidationFailed, s)
      else
        (let orderNumber = (if fd_orderNumber fd \<noteq> [] then fd_orderNumber fd
                            else generatedOrderNumber page);
             projectId = (if fd_projectId fd \<noteq> [] then Some (fd_projectId fd) else None);
             editedId = (if isEditing page
                         then (case currentOrder page of
                                 None \<Rightarrow> None
                               | Some cur \<Rightarrow> if so_id cur = [] then None else Some (so_id cur))
                         else None)
         in case editedId of
              Some curId \<Rightarrow>
                (case stockInService_update curId
                        (\<lambda>r. r\<lparr>so_orderNumber := orderNumber, so_supplierId := fd_supplierId fd,
                                so_projectId := projectId, so_orderDate := fd_orderDate fd,
                                so_status := fd_status fd, so_notes := fd_notes fd\<rparr>) s of
                   (None, s1) \<Rightarrow> (Inl UpdateOrderFailed, s1)
                 | (Some savedOrder, s1) \<Rightarrow>
                     (let existingItems = filter (\<lambda>item. si_orderId item = curId) (stockInItems s1);
                          s2 = foldl (\<lambda>st item. snd (stockInItemService_delete (si_id item) st))
                                 s1 existingItems
                      in saveItems gen (currentOrder page) (fd_status fd) (so_id savedOrder)
                           (fd_items fd) s2))
            | None \<Rightarrow>
                (let (savedOrder, s1) = stockInService_create gen orderNumber (fd_supplierId fd)
                                          projectId (fd_orderDate fd) (fd_status fd) (fd_notes fd) s
                 in saveItems gen (currentOrder page) (fd_status fd) (so_id savedOrder)
                      (fd_items fd) s1)))"

text \<open>\<open>deleteStockInOrder\<close>; \<open>confirmed\<close> is the answer of \<open>window.confirm\<close>.\<close>

definition deleteStockInOrder ::
  "user option \<Rightarrow> bool \<Rightarrow> ident \<Rightarrow> store \<Rightarrow> (error + unit) \<times> store" where
  "deleteStockInOrder currentUser confirmed i s =
     (if \<not> hasPermission currentUser Stock_in Delete then (Inl PermissionDenied, s)
      else if \<not> confirmed then (Inl NotConfirmed, s)
      else
        (let orderItems = filter (\<lambda>item. si_orderId item = i) (stockInItems s);
             s1 = foldl (\<lambda>st item. snd (stockInItemService_delete (si_id item) st)) s orderItems;
             (deleted, s2) = stockInService_delete i s1
         in if deleted then (Inr (), s2) else (Inl DeleteFailed, s2)))"

section \<open>Low-stock alerts\<close>



record alert =
  al_name :: string
  current :: int
  threshold :: int
  al_unit :: string
  al_id :: ident




section \<open>The category tree\<close>

record category =
  cat_id :: ident
  cat_name :: string
  parentId :: "ident option"
  cat_description :: "string option"







text \<open>Following the parent references of the input: the category a parent reference
  resolves to, the \<open>n\<close>-th ancestor, and membership in a parent-reference cycle (some
  ancestor of the category is the category itself).\<close>

definition parent_of :: "category list \<Rightarrow> category \<Rightarrow> category option" where
  "parent_of categories c =
     (case parentId c of
        None \<Rightarrow> None
      | Some p \<Rightarrow> if p = [] then None else find (\<lambda>c'. cat_id c' = p) categories)"



section \<open>The refresh triggered by \<open>inventory-updated\<close>\<close>

datatype sync_status = Idle | Syncing | Synced





section \<open>Sequences of ledger operations\<close>




text \<open>The items and the logged deltas of one material.\<close>

definition items_of :: "ident \<Rightarrow> store \<Rightarrow> inventoryItem list" where
  "items_of materialId s = filter (\<lambda>item. inv_materialId item = materialId) (inventory s)"


text \<open>The quantity a store holds of a material: the sum over its items, which is the
  quantity of the item when there is exactly one, and 0 when there is none.\<close>

definition on_hand :: "ident \<Rightarrow> store \<Rightarrow> int" where
  "on_hand materialId s = sum_list (map quantity (items_of materialId s))"








section \<open>Auxiliary notions for the proofs\<close>

text \<open>The items that the loop of \<open>loadAllData\<close> appends for a list of materials, the
  first with the \<open>n\<close>-th identifier of the supply; and the materials of a store that
  have no item.\<close>

fun provisioned :: "(nat \<Rightarrow> ident) \<Rightarrow> nat \<Rightarrow> material list \<Rightarrow> inventoryItem list" where
  "provisioned gen n [] = []"
| "provisioned gen n (m # ms) =
     \<lparr>inv_id = gen n, inv_materialId = mat_id m, quantity = 0, alertThreshold = 10\<rparr>
       # provisioned gen (Suc n) ms"

definition missing :: "store \<Rightarrow> material list" where
  "missing s =
     filter (\<lambda>m. \<not> list_ex (\<lambda>item. inv_materialId item = mat_id m) (inventory s)) (materials s)"


section \<open>Example data\<close>

definition demo_gen :: "nat \<Rightarrow> ident" where
  "demo_gen n = CHR ''g'' # replicate n CHR ''i''"

definition admin_user :: user where
  "admin_user = \<lparr>user_id = ''u1'', username = ''admin'', password = ''admin123'',
     user_name = ''admin'', email = ''admin@example.com'', role = Admin,
     permissions = Map.empty, isActive = True\<rparr>"

definition inactive_admin :: user where
  "inactive_admin = admin_user\<lparr>isActive := False\<rparr>"

text \<open>A staff member with the default permissions of the role, and one who was also
  given \<open>edit\<close> on the inventory module.\<close>

definition staff_viewer :: user where
  "staff_viewer = \<lparr>user_id = ''u2'', username = ''staff'', password = ''staff123'',
     user_name = ''staff'', email = ''staff@example.com'', role = Staff,
     permissions = [Dashboard \<mapsto> [View], Inventory \<mapsto> [View], Stock_in \<mapsto> [View, Edit],
                    Stock_out \<mapsto> [View, Edit], Reports \<mapsto> [], Users \<mapsto> []],
     isActive = True\<rparr>"

definition staff_editor :: user where
  "staff_editor =
     staff_viewer\<lparr>permissions := (permissions staff_viewer)(Inventory \<mapsto> [View, Edit])\<rparr>"

definition wire :: material where
  "wire = \<lparr>mat_id = ''m1'', mat_name = ''wire'', mat_specification = ''BV-2.5'',
     mat_categoryId = ''c1'', mat_unit = ''roll'', mat_supplierId = Some ''s1'',
     referencePrice = 180, mat_description = None\<rparr>"

definition wire_item :: inventoryItem where
  "wire_item = \<lparr>inv_id = ''i1'', inv_materialId = ''m1'', quantity = 5, alertThreshold = 10\<rparr>"

definition shelf :: store where
  "shelf = \<lparr>materials = [wire], inventory = [wire_item], inventoryTransactions = [],
     stockInOrders = [], stockInItems = [], idSeq = 0\<rparr>"

definition empty_shelf :: store where
  "empty_shelf = \<lparr>materials = [wire], inventory = [], inventoryTransactions = [],
     stockInOrders = [], stockInItems = [], idSeq = 0\<rparr>"









definition pipe :: material where
  "pipe = \<lparr>mat_id = ''m2'', mat_name = ''pipe'', mat_specification = ''PPR-20'',
     mat_categoryId = ''c1'', mat_unit = ''m'', mat_supplierId = Some ''s1'',
     referencePrice = 15, mat_description = None\<rparr>"

definition two_materials :: store where
  "two_materials = shelf\<lparr>materials := [wire, pipe]\<rparr>"

text \<open>A store after the completed order \<open>o1\<close> has brought in five rolls of wire.\<close>

definition order_one :: stockInOrder where
  "order_one = \<lparr>so_id = ''o1'', so_orderNumber = ''RK20240101001'', so_supplierId = ''s1'',
     so_projectId = None, so_orderDate = ''2024-01-01'', so_status = Completed, so_notes = []\<rparr>"

definition line_one :: stockInItem where
  "line_one = \<lparr>si_id = ''l1'', si_orderId = ''o1'', si_materialId = ''m1'', si_quantity = 5,
     si_unitPrice = 180, si_totalPrice = 900, si_notes = None\<rparr>"

definition line_other :: stockInItem where
  "line_other = \<lparr>si_id = ''l2'', si_orderId = ''o2'', si_materialId = ''m1'', si_quantity = 1,
     si_unitPrice = 180, si_totalPrice = 180, si_notes = None\<rparr>"

definition receipt_one :: inventoryTransaction where
  "receipt_one = \<lparr>tx_id = ''t1'', tx_materialId = ''m1'', tx_type = TStock_in, tx_quantity = 5,
     referenceId = Some [], tx_notes = note_stock_in, createdBy = ''admin''\<rparr>"

definition stocked_shelf :: store where
  "stocked_shelf = \<lparr>materials = [wire], inventory = [wire_item],
     inventoryTransactions = [receipt_one], stockInOrders = [order_one],
     stockInItems = [line_one, line_other], idSeq = 4\<rparr>"

text \<open>The form of a completed order with one line, five rolls of wire: as a new order,
  and as the edit of the stored order \<open>o1\<close>.\<close>

definition five_rolls :: formData where
  "five_rolls = \<lparr>fd_orderNumber = [], fd_supplierId = ''s1'', fd_projectId = [],
     fd_orderDate = ''2024-01-01'', fd_notes = [], fd_status = Completed,
     fd_items = [\<lparr>f_id = None, f_materialId = ''m1'', f_quantity = 5, f_unitPrice = 180,
                  f_totalPrice = 900, f_notes = None\<rparr>]\<rparr>"

definition new_order_page :: stockInPage where
  "new_order_page = \<lparr>isEditing = False, currentOrder = None, formData = five_rolls,
     generatedOrderNumber = ''RK20240101001''\<rparr>"



section \<open>Rejected adjustments\<close>

text \<open>
  C2. Past the permission and zero checks (where the \<open>try\<close> block of \<open>adjustInventory\<close>
  starts), an adjustment that would bring the quantity of the addressed item below zero
  is answered with the insufficient-stock error, and the store it returns is the store
  it was given: nothing was written to the inventory or to the transaction log.
\<close>

theorem adjustInventory_insufficient_stock:
  assumes "hasPermission currentUser Inventory Edit"
    and "d \<noteq> 0"
    and "inventoryService_getById itemId s = Some item"
    and "quantity item + d < 0"
  shows "adjustInventory gen currentUser itemId d reason notes s = (Inl InsufficientStock, s)"
  using assms by (simp add: adjustInventory_def)

theorem adjustInventory_insufficient_stock_witness:
  "hasPermission (Some admin_user) Inventory Edit \<and> (- 8 :: int) \<noteq> 0 \<and>
   inventoryService_getById ''i1'' shelf = Some wire_item \<and> quantity wire_item + (- 8) < 0 \<and>
   adjustInventory demo_gen (Some admin_user) ''i1'' (- 8) ''damage'' None shelf
     = (Inl InsufficientStock, shelf)"
  using adjustInventory_insufficient_stock
          [of "Some admin_user" "- 8" "''i1''" shelf wire_item demo_gen "''damage''" None]
  by (simp add: hasPermission_def admin_user_def inventoryService_getById_def shelf_def wire_item_def)

section \<open>The permission gate of the adjustment\<close>

text \<open>
  C4 (counterexample). The claim makes \<open>delete\<close> on the inventory module the permission
  that guards an adjustment, and lets every administrator pass. \<open>adjustInventory\<close>
  asks for \<open>edit\<close>: a staff member whose inventory permissions are view and edit, without
  delete, is not turned away by the gate (the adjustment goes through). And
  \<open>hasPermission\<close> refuses an inactive user before it looks at the role: an administrator
  whose account is inactive is rejected with the permission error.
\<close>

theorem adjust_gate_counterexample:
  "role staff_editor = Staff \<and> permissions staff_editor Inventory = Some [View, Edit] \<and>
   Delete \<notin> set [View, Edit] \<and>
   fst (adjustInventory demo_gen (Some staff_editor) ''i1'' 1 ''other'' None shelf) = Inr () \<and>
   role inactive_admin = Admin \<and>
   adjustInventory demo_gen (Some inactive_admin) ''i1'' 1 ''other'' None shelf
     = (Inl PermissionDenied, shelf)"
  by (simp add: adjustInventory_def hasPermission_def staff_editor_def staff_viewer_def
      inactive_admin_def admin_user_def inventoryService_getById_def shelf_def wire_item_def)

text \<open>
  C4 (amended). A user with role staff whose permission list for the inventory module
  does not contain \<open>edit\<close> (or who has no list for the module) is rejected by
  \<open>adjustInventory\<close> with the permission error, and the store is returned as it was: no
  write to the inventory or to the transaction log. An active user with role admin is
  never rejected by the permission gate, whatever the configured per-module permissions.
\<close>

theorem adjust_permission_gate:
  "(role u = Staff \<longrightarrow> (case permissions u Inventory of None \<Rightarrow> True | Some ps \<Rightarrow> Edit \<notin> set ps)
      \<longrightarrow> adjustInventory gen (Some u) itemId d reason notes s = (Inl PermissionDenied, s))
   \<and> (role a = Admin \<longrightarrow> isActive a
      \<longrightarrow> fst (adjustInventory gen (Some a) itemId d reason notes s) \<noteq> Inl PermissionDenied)"
  by (simp add: adjustInventory_def hasPermission_def Let_def split: option.splits)

theorem adjust_permission_gate_witness:
  "role staff_viewer = Staff \<and> permissions staff_viewer Inventory = Some [View] \<and>
   Edit \<notin> set [View] \<and>
   adjustInventory demo_gen (Some staff_viewer) ''i1'' 1 ''other'' None shelf
     = (Inl PermissionDenied, shelf) \<and>
   role admin_user = Admin \<and> isActive admin_user \<and>
   fst (adjustInventory demo_gen (Some admin_user) ''i1'' 1 ''other'' None shelf)
     \<noteq> Inl PermissionDenied"
  using adjust_permission_gate
          [of staff_viewer demo_gen "''i1''" 1 "''other''" None shelf admin_user]
  by (simp add: staff_viewer_def admin_user_def)

section \<open>Suppression of stale signals\<close>








section \<open>Low-stock lists\<close>





section \<open>Lazy provisioning\<close>

lemma inventoryService_create_eq:
  "snd (inventoryService_create gen m q a s) =
     s\<lparr>inventory := inventory s @
          [\<lparr>inv_id = gen (idSeq s), inv_materialId = m, quantity = q, alertThreshold = a\<rparr>],
       idSeq := Suc (idSeq s)\<rparr>"
  by (simp add: inventoryService_create_def generateId_def Let_def)

lemma provision_loop:
  "foldl (\<lambda>st m. if list_ex (\<lambda>item. inv_materialId item = mat_id m) inv0 then st
                  else snd (inventoryService_create gen (mat_id m) 0 10 st)) st ms
   = st\<lparr>inventory := inventory st @ provisioned gen (idSeq st)
           (filter (\<lambda>m. \<not> list_ex (\<lambda>item. inv_materialId item = mat_id m) inv0) ms),
        idSeq := idSeq st
           + length (filter (\<lambda>m. \<not> list_ex (\<lambda>item. inv_materialId item = mat_id m) inv0) ms)\<rparr>"
proof (induction ms arbitrary: st)
  case Nil
  show ?case by simp
next
  case (Cons m ms)
  show ?case by (simp add: Cons.IH inventoryService_create_eq)
qed

lemma loadAllData_eq:
  "loadAllData gen s =
     s\<lparr>inventory := inventory s @ provisioned gen (idSeq s) (missing s),
       idSeq := idSeq s + length (missing s)\<rparr>"
  by (simp add: loadAllData_def Let_def provision_loop missing_def)

lemma provisioned_materialIds: "inv_materialId ` set (provisioned gen n ms) = mat_id ` set ms"
  by (induction ms arbitrary: n) auto

lemma missing_after_load: "missing (loadAllData gen s) = []"
proof -
  have "list_ex (\<lambda>item. inv_materialId item = mat_id m) (inventory (loadAllData gen s))"
    if "m \<in> set (materials s)" for m
  proof (cases "list_ex (\<lambda>item. inv_materialId item = mat_id m) (inventory s)")
    case True
    then show ?thesis by (simp add: loadAllData_eq)
  next
    case False
    with that have "m \<in> set (missing s)" by (simp add: missing_def)
    then have "mat_id m \<in> inv_materialId ` set (provisioned gen (idSeq s) (missing s))"
      by (simp add: provisioned_materialIds)
    then have "list_ex (\<lambda>item. inv_materialId item = mat_id m)
                 (provisioned gen (idSeq s) (missing s))"
      by (auto simp: list_ex_iff)
    then show ?thesis by (simp add: loadAllData_eq)
  qed
  moreover have "materials (loadAllData gen s) = materials s" by (simp add: loadAllData_eq)
  ultimately have "\<forall>m \<in> set (materials (loadAllData gen s)).
      list_ex (\<lambda>item. inv_materialId item = mat_id m) (inventory (loadAllData gen s))" by simp
  then show ?thesis unfolding missing_def filter_empty_conv by blast
qed

lemma loadAllData_idem: "loadAllData gen (loadAllData gen s) = loadAllData gen s"
  by (subst loadAllData_eq [of gen "loadAllData gen s"]) (simp add: missing_after_load)

lemma provisioned_other:
  "x \<notin> mat_id ` set ms \<Longrightarrow> filter (\<lambda>item. inv_materialId item = x) (provisioned gen n ms) = []"
  by (induction ms arbitrary: n) auto

lemma provisioned_one:
  "distinct (map mat_id ms) \<Longrightarrow> m \<in> set ms \<Longrightarrow>
     \<exists>i. filter (\<lambda>item. inv_materialId item = mat_id m) (provisioned gen n ms)
          = [\<lparr>inv_id = i, inv_materialId = mat_id m, quantity = 0, alertThreshold = 10\<rparr>]"
proof (induction ms arbitrary: n)
  case Nil
  then show ?case by simp
next
  case (Cons a ms)
  show ?case
  proof (cases "mat_id a = mat_id m")
    case True
    with Cons.prems have "mat_id m \<notin> mat_id ` set ms" by auto
    then show ?thesis using True by (simp add: provisioned_other)
  next
    case False
    with Cons.prems have "m \<in> set ms" "distinct (map mat_id ms)" by auto
    from Cons.IH [OF this(2,1), of "Suc n"] False show ?thesis by simp
  qed
qed

text \<open>
  C6. Running \<open>loadAllData\<close> a second time changes nothing: the store after two runs is
  the store after one. In the first run a material identifier that already has items
  keeps exactly those, and, the materials having distinct identifiers, a material
  without an item gets exactly one, with quantity 0 and alert threshold 10. So two runs
  in a row create at most one item per material.
\<close>

theorem lazy_provisioning:
  "loadAllData gen (loadAllData gen s) = loadAllData gen s
   \<and> (\<forall>x. items_of x s \<noteq> [] \<longrightarrow> items_of x (loadAllData gen s) = items_of x s)
   \<and> (distinct (map mat_id (materials s)) \<longrightarrow>
        (\<forall>m \<in> set (materials s). items_of (mat_id m) s = [] \<longrightarrow>
           (\<exists>i. items_of (mat_id m) (loadAllData gen s)
                  = [\<lparr>inv_id = i, inv_materialId = mat_id m, quantity = 0,
                      alertThreshold = 10\<rparr>])))"
proof (intro conjI allI impI ballI)
  show "loadAllData gen (loadAllData gen s) = loadAllData gen s" by (rule loadAllData_idem)
next
  fix x assume "items_of x s \<noteq> []"
  then have "x \<in> inv_materialId ` set (inventory s)"
    by (auto simp: items_of_def filter_empty_conv)
  then have "x \<notin> mat_id ` set (missing s)"
    by (auto simp: missing_def list_ex_iff)
  then show "items_of x (loadAllData gen s) = items_of x s"
    by (simp add: items_of_def loadAllData_eq provisioned_other)
next
  fix m assume d: "distinct (map mat_id (materials s))" and m: "m \<in> set (materials s)"
    and e: "items_of (mat_id m) s = []"
  from e m have mm: "m \<in> set (missing s)"
    by (auto simp: items_of_def missing_def filter_empty_conv list_ex_iff)
  from d have "distinct (map mat_id (missing s))"
    by (simp add: missing_def distinct_map_filter)
  from provisioned_one [OF this mm, of gen "idSeq s"] e
  show "\<exists>i. items_of (mat_id m) (loadAllData gen s)
                  = [\<lparr>inv_id = i, inv_materialId = mat_id m, quantity = 0, alertThreshold = 10\<rparr>]"
    by (simp add: items_of_def loadAllData_eq)
qed

theorem lazy_provisioning_witness:
  "distinct (map mat_id (materials two_materials)) \<and>
   wire \<in> set (materials two_materials) \<and> items_of (mat_id wire) two_materials \<noteq> [] \<and>
   items_of (mat_id wire) (loadAllData demo_gen two_materials) = [wire_item] \<and>
   pipe \<in> set (materials two_materials) \<and> items_of (mat_id pipe) two_materials = [] \<and>
   items_of (mat_id pipe) (loadAllData demo_gen two_materials)
     = [\<lparr>inv_id = ''g'', inv_materialId = ''m2'', quantity = 0, alertThreshold = 10\<rparr>] \<and>
   inventory (loadAllData demo_gen (loadAllData demo_gen two_materials))
     = [wire_item, \<lparr>inv_id = ''g'', inv_materialId = ''m2'', quantity = 0, alertThreshold = 10\<rparr>]"
  using lazy_provisioning [of demo_gen two_materials]
  by (simp add: two_materials_def shelf_def wire_def pipe_def wire_item_def items_of_def
      loadAllData_def Let_def
      inventoryService_create_def generateId_def demo_gen_def)

section \<open>Roots of the category tree\<close>














lemma parent_of_Some:
  "parent_of cs c = Some p \<Longrightarrow> p \<in> set cs \<and> parentId c = Some (cat_id p) \<and> cat_id p \<noteq> []"
  by (auto simp: parent_of_def find_Some_iff split: option.splits if_splits)













section \<open>Deleting a stock-in order\<close>

lemma filter_same_length: "length xs = length (filter P xs) \<Longrightarrow> filter P xs = xs"
  by (metis filter_id_conv length_filter_less less_irrefl)

lemma stockInItemService_delete_eq:
  "snd (stockInItemService_delete i s)
     = s\<lparr>stockInItems := filter (\<lambda>item. si_id item \<noteq> i) (stockInItems s)\<rparr>"
proof (cases "length (stockInItems s)
                = length (filter (\<lambda>item. si_id item \<noteq> i) (stockInItems s))")
  case True
  from filter_same_length [OF True]
  have "filter (\<lambda>item. si_id item \<noteq> i) (stockInItems s) = stockInItems s" .
  then show ?thesis by (simp add: stockInItemService_delete_def Let_def)
next
  case False
  then show ?thesis by (simp add: stockInItemService_delete_def Let_def)
qed

lemma stockInService_delete_eq:
  "snd (stockInService_delete i s)
     = s\<lparr>stockInOrders := filter (\<lambda>item. so_id item \<noteq> i) (stockInOrders s)\<rparr>"
proof (cases "length (stockInOrders s)
                = length (filter (\<lambda>item. so_id item \<noteq> i) (stockInOrders s))")
  case True
  from filter_same_length [OF True]
  have "filter (\<lambda>item. so_id item \<noteq> i) (stockInOrders s) = stockInOrders s" .
  then show ?thesis by (simp add: stockInService_delete_def Let_def)
next
  case False
  then show ?thesis by (simp add: stockInService_delete_def Let_def)
qed

lemma delete_items_loop:
  "foldl (\<lambda>st item. snd (stockInItemService_delete (si_id item) st)) s xs
     = s\<lparr>stockInItems := filter (\<lambda>item. si_id item \<notin> si_id ` set xs) (stockInItems s)\<rparr>"
  unfolding stockInItemService_delete_eq
proof (induction xs arbitrary: s)
  case Nil
  show ?case by simp
next
  case (Cons x xs)
  show ?case by (simp add: Cons.IH conj_commute)
qed

lemma deleteStockInOrder_store:
  "snd (deleteStockInOrder u c i s) =
     (if hasPermission u Stock_in Delete \<and> c
      then s\<lparr>stockInItems :=
               filter (\<lambda>item. si_id item \<notin> si_id ` {it \<in> set (stockInItems s). si_orderId it = i})
                 (stockInItems s),
             stockInOrders := filter (\<lambda>ord. so_id ord \<noteq> i) (stockInOrders s)\<rparr>
      else s)"
proof -
  have "\<And>t. snd (case stockInService_delete i t of (deleted, s2) \<Rightarrow>
           if deleted then (Inr (), s2) else (Inl DeleteFailed, s2)) = snd (stockInService_delete i t)"
    by (simp add: split_beta)
  then show ?thesis
    by (simp add: deleteStockInOrder_def Let_def delete_items_loop stockInService_delete_eq)
qed

text \<open>
  C9. \<open>deleteStockInOrder\<close> never touches the inventory collection or the transaction
  log, whatever the status of the order: both are the same lists before and after. For
  a user who may delete stock-in orders and who confirms the dialog, the order header
  is removed and no line item of the order remains (line items of other orders stay,
  unless they share an identifier with a deleted one). The quantities that a completed
  order added to the inventory are therefore not taken back, and no transaction is
  recorded for the deletion.
\<close>

theorem delete_order_keeps_ledger:
  "inventory (snd (deleteStockInOrder u c i s)) = inventory s
   \<and> inventoryTransactions (snd (deleteStockInOrder u c i s)) = inventoryTransactions s
   \<and> (hasPermission u Stock_in Delete \<longrightarrow> c \<longrightarrow>
        stockInOrders (snd (deleteStockInOrder u c i s))
          = filter (\<lambda>ord. so_id ord \<noteq> i) (stockInOrders s)
        \<and> (\<forall>item \<in> set (stockInItems (snd (deleteStockInOrder u c i s))). si_orderId item \<noteq> i)
        \<and> (\<forall>item \<in> set (stockInItems s). si_orderId item \<noteq> i \<longrightarrow>
             si_id item \<notin> si_id ` {it \<in> set (stockInItems s). si_orderId it = i} \<longrightarrow>
             item \<in> set (stockInItems (snd (deleteStockInOrder u c i s)))))"
proof -
  let ?s' = "snd (deleteStockInOrder u c i s)"
  have inv: "inventory ?s' = inventory s"
    by (simp add: deleteStockInOrder_store)
  have log: "inventoryTransactions ?s' = inventoryTransactions s"
    by (simp add: deleteStockInOrder_store)
  have del: "stockInOrders ?s' = filter (\<lambda>ord. so_id ord \<noteq> i) (stockInOrders s)
        \<and> (\<forall>item \<in> set (stockInItems ?s'). si_orderId item \<noteq> i)
        \<and> (\<forall>item \<in> set (stockInItems s). si_orderId item \<noteq> i \<longrightarrow>
             si_id item \<notin> si_id ` {it \<in> set (stockInItems s). si_orderId it = i} \<longrightarrow>
             item \<in> set (stockInItems ?s'))"
    if "hasPermission u Stock_in Delete" and c
  proof -
    have eq: "?s' = s\<lparr>stockInItems :=
               filter (\<lambda>item. si_id item \<notin> si_id ` {it \<in> set (stockInItems s). si_orderId it = i})
                 (stockInItems s),
             stockInOrders := filter (\<lambda>ord. so_id ord \<noteq> i) (stockInOrders s)\<rparr>"
      using that by (simp add: deleteStockInOrder_store)
    have 1: "stockInOrders ?s' = filter (\<lambda>ord. so_id ord \<noteq> i) (stockInOrders s)"
      by (simp add: eq)
    have 2: "\<forall>item \<in> set (stockInItems ?s'). si_orderId item \<noteq> i"
      unfolding eq by auto
    have 3: "\<forall>item \<in> set (stockInItems s). si_orderId item \<noteq> i \<longrightarrow>
             si_id item \<notin> si_id ` {it \<in> set (stockInItems s). si_orderId it = i} \<longrightarrow>
             item \<in> set (stockInItems ?s')"
      unfolding eq by simp
    from 1 2 3 show ?thesis by blast
  qed
  from inv log del show ?thesis by blast
qed

theorem delete_order_keeps_ledger_witness:
  "hasPermission (Some admin_user) Stock_in Delete \<and> so_status order_one = Completed \<and>
   line_one \<in> set (stockInItems stocked_shelf) \<and> si_orderId line_one = ''o1'' \<and>
   line_other \<in> set (stockInItems stocked_shelf) \<and> si_orderId line_other \<noteq> ''o1'' \<and>
   deleteStockInOrder (Some admin_user) True ''o1'' stocked_shelf
     = (Inr (), stocked_shelf\<lparr>stockInOrders := [], stockInItems := [line_other]\<rparr>) \<and>
   inventory (snd (deleteStockInOrder (Some admin_user) True ''o1'' stocked_shelf)) = [wire_item] \<and>
   inventoryTransactions (snd (deleteStockInOrder (Some admin_user) True ''o1'' stocked_shelf))
     = [receipt_one]"
  using delete_order_keeps_ledger [of "Some admin_user" True "''o1''" stocked_shelf]
  by (simp add: deleteStockInOrder_def stockInItemService_delete_def stockInService_delete_def
      hasPermission_def admin_user_def stocked_shelf_def order_one_def line_one_def
      line_other_def)


section \<open>Effects of the ledger operations\<close>














lemma on_hand_log [simp]: "on_hand X (s\<lparr>inventoryTransactions := l\<rparr>) = on_hand X s"
  by (simp add: on_hand_def items_of_def)

lemma on_hand_tick [simp]: "on_hand X (s\<lparr>idSeq := n\<rparr>) = on_hand X s"
  by (simp add: on_hand_def items_of_def)

lemma items_of_log [simp]: "items_of X (s\<lparr>inventoryTransactions := l\<rparr>) = items_of X s"
  by (simp add: items_of_def)

lemma items_of_tick [simp]: "items_of X (s\<lparr>idSeq := n\<rparr>) = items_of X s"
  by (simp add: items_of_def)


























section \<open>Reconciliation of the ledger\<close>









section \<open>Saving a completed stock-in order\<close>




lemma on_hand_lines [simp]: "on_hand X (s\<lparr>stockInItems := l\<rparr>) = on_hand X s"
  by (simp add: on_hand_def items_of_def)

lemma on_hand_orders [simp]: "on_hand X (s\<lparr>stockInOrders := l\<rparr>) = on_hand X s"
  by (simp add: on_hand_def items_of_def)







text \<open>
  C3. A new order is saved with \<open>currentOrder = null\<close> (\<open>openCreateModal\<close> resets it), and
  \<open>updateInventory\<close> takes the reference of the transaction from \<open>currentOrder\<close>, not
  from the order that \<open>saveStockInOrder\<close> has just created. For a material without
  inventory item, saving a new completed order with one line of quantity 5 creates the
  order (identifier \<open>g\<close> here), the item with quantity 5 and threshold 10, and exactly one
  stock-in transaction with delta 5; but the reference of that transaction is the empty
  string, not the identifier of the order.
\<close>

theorem new_order_reference_is_empty:
  "items_of ''m1'' empty_shelf = [] \<and> inventoryTransactions empty_shelf = [] \<and>
   fst (saveStockInOrder demo_gen new_order_page empty_shelf) = Inr () \<and>
   map so_id (stockInOrders (snd (saveStockInOrder demo_gen new_order_page empty_shelf)))
     = [''g''] \<and>
   inventory (snd (saveStockInOrder demo_gen new_order_page empty_shelf))
     = [\<lparr>inv_id = ''gii'', inv_materialId = ''m1'', quantity = 5, alertThreshold = 10\<rparr>] \<and>
   inventoryTransactions (snd (saveStockInOrder demo_gen new_order_page empty_shelf))
     = [\<lparr>tx_id = ''giii'', tx_materialId = ''m1'', tx_type = TStock_in, tx_quantity = 5,
         referenceId = Some [], tx_notes = note_stock_in, createdBy = ''admin''\<rparr>] \<and>
   list_all (\<lambda>t. referenceId t \<noteq> Some ''g'')
     (inventoryTransactions (snd (saveStockInOrder demo_gen new_order_page empty_shelf)))"
  by code_simp





end
